theory Spec2Isabelle
  imports Main "HOL-Library.AList"
begin

section \<open>Python values\<close>

text \<open>
  The client stores and inspects values decoded from JSON without checking their type,
  so the model keeps them dynamically typed. \<open>PNone\<close> is Python's \<open>None\<close>, which is also
  what a JSON \<open>null\<close> decodes to. A dict is an association list in insertion order.

  The source never computes with a float; it only tests one for truth and passes one to
  \<open>timedelta(seconds=...)\<close>. A float is therefore represented by these two observations:
  whether it differs from zero, and the number of microseconds \<open>timedelta\<close> rounds it to
  (\<open>None\<close> where \<open>timedelta\<close> raises: an infinity, a nan, a value out of range; the
  model raises \<open>OverflowError\<close> there, also for a nan, where Python raises \<open>ValueError\<close>).
\<close>

datatype pyfloat = Float (nonzero: bool) (as_micros: "int option")

datatype pyval =
    PNone
  | PBool bool
  | PInt int
  | PFloat pyfloat
  | PStr string
  | PList "pyval list"
  | PDict "(string \<times> pyval) list"

text \<open>Truth value testing, as \<open>if x:\<close>, \<open>not x\<close> and \<open>x or y\<close> perform it.\<close>

fun truthy :: "pyval \<Rightarrow> bool" where
  "truthy PNone = False"
| "truthy (PBool b) = b"
| "truthy (PInt n) = (n \<noteq> 0)"
| "truthy (PFloat f) = nonzero f"
| "truthy (PStr s) = (s \<noteq> [])"
| "truthy (PList xs) = (xs \<noteq> [])"
| "truthy (PDict kvs) = (kvs \<noteq> [])"

definition py_or :: "pyval \<Rightarrow> pyval \<Rightarrow> pyval" where
  "py_or a b = (if truthy a then a else b)"

text \<open>An \<open>Optional[str]\<close> argument of the caller, and its view as a Python value.\<close>

fun of_opt :: "string option \<Rightarrow> pyval" where
  "of_opt None = PNone"
| "of_opt (Some s) = PStr s"

definition dict_get :: "(string \<times> pyval) list \<Rightarrow> string \<Rightarrow> pyval \<Rightarrow> pyval" where
  \<comment> \<open>\<open>d.get(k, default)\<close> on a dict\<close>
  "dict_get kvs k dflt = (case map_of kvs k of Some v \<Rightarrow> v | None \<Rightarrow> dflt)"

section \<open>Exceptions\<close>

text \<open>
  The attributes every \<open>CRMError\<close> carries. \<open>message\<close>, \<open>error_code\<close> and \<open>details\<close> are
  whatever the caller passed, so they are Python values.
\<close>

record crm_fields =
  message :: pyval
  status_code :: "int option"
  error_code :: pyval
  details :: pyval

text \<open>
  One constructor for each exception class of \<open>exceptions.py\<close>, with the attributes a
  subclass adds (\<open>retry_after\<close>, the description of \<open>original_error\<close>, \<open>timeout\<close>), followed
  by the exceptions of Python and of the libraries that the client lets through.
\<close>

datatype exc =
    CRMError crm_fields
  | AuthenticationError crm_fields
  | AuthorizationError crm_fields
  | NotFoundError crm_fields
  | ValidationError crm_fields
  | ConflictError crm_fields
  | RateLimitError crm_fields pyval
  | ServerError crm_fields
  | NetworkError crm_fields "string option"
  | TimeoutError crm_fields pyval
  | TypeError
  | KeyError string
  | AttributeError
  | OverflowError
  | JSONDecodeError
  | HttpxTimeoutException string
  | HttpxRequestError string
  | PydanticValidationError

text \<open>The taxonomy kinds of the specification, and the kind of each SDK exception class.\<close>

datatype kind =
  Authentication | Authorization | NotFound | Validation | Conflict | RateLimit
  | Server | Network | Timeout | Generic

fun kind_of :: "exc \<Rightarrow> kind option" where
  "kind_of (CRMError _) = Some Generic"
| "kind_of (AuthenticationError _) = Some Authentication"
| "kind_of (AuthorizationError _) = Some Authorization"
| "kind_of (NotFoundError _) = Some NotFound"
| "kind_of (ValidationError _) = Some Validation"
| "kind_of (ConflictError _) = Some Conflict"
| "kind_of (RateLimitError _ _) = Some RateLimit"
| "kind_of (ServerError _) = Some Server"
| "kind_of (NetworkError _ _) = Some Network"
| "kind_of (TimeoutError _ _) = Some Timeout"
| "kind_of _ = None"

fun fields_of :: "exc \<Rightarrow> crm_fields option" where
  "fields_of (CRMError b) = Some b"
| "fields_of (AuthenticationError b) = Some b"
| "fields_of (AuthorizationError b) = Some b"
| "fields_of (NotFoundError b) = Some b"
| "fields_of (ValidationError b) = Some b"
| "fields_of (ConflictError b) = Some b"
| "fields_of (RateLimitError b _) = Some b"
| "fields_of (ServerError b) = Some b"
| "fields_of (NetworkError b _) = Some b"
| "fields_of (TimeoutError b _) = Some b"
| "fields_of _ = None"

text \<open>Subscripting \<open>x[k]\<close>, the method call \<open>x.get(k, default)\<close> and the store \<open>x[k] = v\<close>
  with a string key, on a value of any type.\<close>

fun py_getitem :: "pyval \<Rightarrow> string \<Rightarrow> exc + pyval" where
  "py_getitem (PDict kvs) k = (case map_of kvs k of Some v \<Rightarrow> Inr v | None \<Rightarrow> Inl (KeyError k))"
| "py_getitem _ k = Inl TypeError"

fun py_get :: "pyval \<Rightarrow> string \<Rightarrow> pyval \<Rightarrow> exc + pyval" where
  "py_get (PDict kvs) k dflt = Inr (dict_get kvs k dflt)"
| "py_get _ k dflt = Inl AttributeError"

fun py_setitem :: "pyval \<Rightarrow> string \<Rightarrow> pyval \<Rightarrow> exc + pyval" where
  "py_setitem (PDict kvs) k v = Inr (PDict (AList.update k v kvs))"
| "py_setitem _ k v = Inl TypeError"

section \<open>Time\<close>

text \<open>
  An instant (\<open>datetime\<close>) and a duration (\<open>timedelta\<close>) are integers counting
  microseconds, the resolution of both Python types. The range limits of the two types
  (years 1 to 9999, a thousand million days) are not modelled.
\<close>

definition seconds :: "int \<Rightarrow> int" where
  "seconds n = n * 1000000"

definition minutes :: "int \<Rightarrow> int" where
  "minutes n = seconds (60 * n)"

fun timedelta_seconds :: "pyval \<Rightarrow> exc + int" where
  \<comment> \<open>\<open>timedelta(seconds=v)\<close>: a number is accepted (\<open>bool\<close> is a subclass of \<open>int\<close>)\<close>
  "timedelta_seconds (PInt n) = Inr (seconds n)"
| "timedelta_seconds (PBool b) = Inr (seconds (if b then 1 else 0))"
| "timedelta_seconds (PFloat f) = (case as_micros f of Some m \<Rightarrow> Inr m | None \<Rightarrow> Inl OverflowError)"
| "timedelta_seconds _ = Inl TypeError"

section \<open>The client and its surroundings\<close>

text \<open>The attributes of \<open>CRMClient\<close> (\<open>_access_token\<close>, \<open>_refresh_token\<close> and
  \<open>_token_expires_at\<close> without their underscore).\<close>

record CRMClient =
  base_url :: string
  api_key :: "string option"
  tenant_id :: "string option"
  timeout :: pyval
  auto_refresh :: bool
  access_token :: pyval
  refresh_token :: pyval
  token_expires_at :: "int option"

text \<open>
  What the HTTP library is asked to send, and what it answers: a response, of which the
  client reads \<open>status_code\<close>, \<open>text\<close> and \<open>json()\<close> (\<open>None\<close> where \<open>json()\<close> raises: the
  body is empty or is not JSON), or one of the two transport exceptions the client
  distinguishes, with its description.
\<close>

datatype hvalue = Plain string | Bearer pyval

record http_call =
  call_method :: string
  call_url :: string
  call_params :: pyval
  call_json :: pyval
  call_headers :: "(string \<times> hvalue) list"

record response =
  resp_status :: int
  resp_text :: string
  resp_json :: "pyval option"

datatype transport_result =
    Response response
  | TimeoutException string
  | RequestError string

text \<open>
  The surroundings are arbitrary: \<open>clock e k\<close> is what the \<open>k\<close>-th call of
  \<open>datetime.now()\<close> returns and \<open>server e k\<close> is the outcome of the \<open>k\<close>-th call of the
  HTTP library. The state counts the readings of the clock and records the calls sent,
  oldest first.
\<close>

record env =
  clock :: "nat \<Rightarrow> int"
  server :: "nat \<Rightarrow> transport_result"

record world =
  client :: CRMClient
  ticks :: nat
  sent :: "http_call list"

definition datetime_now :: "env \<Rightarrow> world \<Rightarrow> int \<times> world" where
  "datetime_now e w = (clock e (ticks w), w\<lparr>ticks := Suc (ticks w)\<rparr>)"

definition transport_send :: "env \<Rightarrow> world \<Rightarrow> http_call \<Rightarrow> transport_result \<times> world" where
  "transport_send e w c = (server e (length (sent w)), w\<lparr>sent := sent w @ [c]\<rparr>)"

section \<open>Credential state\<close>

definition should_refresh_token :: "env \<Rightarrow> world \<Rightarrow> bool \<times> world" where
  "should_refresh_token e w =
     (if \<not> auto_refresh (client w) \<or> \<not> truthy (refresh_token (client w)) then (False, w)
      else case token_expires_at (client w) of
             None \<Rightarrow> (False, w)
           | Some expires_at \<Rightarrow>
               (let (now, w') = datetime_now e w
                in (now \<ge> expires_at - minutes 5, w')))"


section \<open>The exception classes\<close>

text \<open>
  The constructors of \<open>exceptions.py\<close>. \<open>details or {}\<close> keeps the value passed when
  Python takes it for true, whatever its type, and the store \<open>details[k] = v\<close> that some
  constructors perform raises \<open>TypeError\<close> on a value that is not a dict: the result of
  a constructor call is then that exception instead of the new one.
\<close>

definition CRMError_init :: "pyval \<Rightarrow> int option \<Rightarrow> pyval \<Rightarrow> pyval \<Rightarrow> crm_fields" where
  "CRMError_init msg status code dtl =
     \<lparr>message = msg, status_code = status, error_code = code, details = py_or dtl (PDict [])\<rparr>"

definition store_if :: "pyval \<Rightarrow> string \<Rightarrow> pyval \<Rightarrow> exc + pyval" where
  \<comment> \<open>\<open>if v: d[k] = v\<close>\<close>
  "store_if d k v = (if truthy v then py_setitem d k v else Inr d)"

definition AuthenticationError_init :: "pyval \<Rightarrow> pyval \<Rightarrow> pyval \<Rightarrow> exc" where
  "AuthenticationError_init msg code dtl =
     AuthenticationError
       (CRMError_init msg (Some 401) (py_or code (PStr ''AUTHENTICATION_ERROR'')) dtl)"

definition AuthorizationError_init :: "pyval \<Rightarrow> pyval \<Rightarrow> pyval \<Rightarrow> exc" where
  "AuthorizationError_init msg code dtl =
     AuthorizationError
       (CRMError_init msg (Some 403) (py_or code (PStr ''AUTHORIZATION_ERROR'')) dtl)"

definition NotFoundError_init :: "pyval \<Rightarrow> pyval \<Rightarrow> pyval \<Rightarrow> pyval \<Rightarrow> exc" where
  "NotFoundError_init msg resource_type resource_id dtl =
     (case store_if (py_or dtl (PDict [])) ''resource_type'' resource_type of
        Inl ex \<Rightarrow> ex
      | Inr d1 \<Rightarrow>
          (case store_if d1 ''resource_id'' resource_id of
             Inl ex \<Rightarrow> ex
           | Inr d2 \<Rightarrow> NotFoundError (CRMError_init msg (Some 404) (PStr ''NOT_FOUND'') d2)))"

definition ValidationError_init :: "pyval \<Rightarrow> pyval \<Rightarrow> pyval \<Rightarrow> exc" where
  "ValidationError_init msg errors dtl =
     (case store_if (py_or dtl (PDict [])) ''validation_errors'' errors of
        Inl ex \<Rightarrow> ex
      | Inr d \<Rightarrow> ValidationError (CRMError_init msg (Some 400) (PStr ''VALIDATION_ERROR'') d))"

definition ConflictError_init :: "pyval \<Rightarrow> pyval \<Rightarrow> pyval \<Rightarrow> exc" where
  "ConflictError_init msg code dtl =
     ConflictError (CRMError_init msg (Some 409) (py_or code (PStr ''CONFLICT'')) dtl)"

definition RateLimitError_init :: "pyval \<Rightarrow> pyval \<Rightarrow> pyval \<Rightarrow> exc" where
  "RateLimitError_init msg retry_after dtl =
     (case store_if (py_or dtl (PDict [])) ''retry_after'' retry_after of
        Inl ex \<Rightarrow> ex
      | Inr d \<Rightarrow>
          RateLimitError (CRMError_init msg (Some 429) (PStr ''RATE_LIMIT_EXCEEDED'') d)
            retry_after)"

definition ServerError_init :: "pyval \<Rightarrow> int \<Rightarrow> pyval \<Rightarrow> pyval \<Rightarrow> exc" where
  "ServerError_init msg status code dtl =
     ServerError (CRMError_init msg (Some status) (py_or code (PStr ''SERVER_ERROR'')) dtl)"

definition NetworkError_init :: "pyval \<Rightarrow> string option \<Rightarrow> pyval \<Rightarrow> exc" where
  \<comment> \<open>\<open>original_error\<close> is an exception, true for Python; the model holds \<open>str\<close> of it\<close>
  "NetworkError_init msg original_error dtl =
     (case (case original_error of
              None \<Rightarrow> Inr (py_or dtl (PDict []))
            | Some descr \<Rightarrow> py_setitem (py_or dtl (PDict [])) ''original_error'' (PStr descr)) of
        Inl ex \<Rightarrow> ex
      | Inr d \<Rightarrow>
          NetworkError (CRMError_init msg None (PStr ''NETWORK_ERROR'') d) original_error)"

definition TimeoutError_init :: "pyval \<Rightarrow> pyval \<Rightarrow> pyval \<Rightarrow> exc" where
  "TimeoutError_init msg tmo dtl =
     (case store_if (py_or dtl (PDict [])) ''timeout'' tmo of
        Inl ex \<Rightarrow> ex
      | Inr d \<Rightarrow> TimeoutError (CRMError_init msg None (PStr ''TIMEOUT'') d) tmo)"

section \<open>The error taxonomy\<close>

text \<open>
  \<open>raise_for_status\<close> always raises; the model returns what it raises, and with it the
  dict it was passed as the caller finds it afterwards. The two can differ: a
  constructor keeps the \<open>details\<close> it is passed when that is not empty, so the details
  of the new error and the \<open>details\<close> entry of the body are then one object, and the
  entry that \<open>ValidationError\<close> or \<open>RateLimitError\<close> stores into it shows in the body.
\<close>

definition raise_for_status :: "int \<Rightarrow> (string \<times> pyval) list \<Rightarrow> exc \<times> (string \<times> pyval) list" where
  "raise_for_status status response_data =
     (let error_message =
            dict_get response_data ''error''
              (dict_get response_data ''message'' (PStr ''Unknown error''));
          code = dict_get response_data ''code'' PNone;
          dtl = dict_get response_data ''details'' (PDict []);
          raised =
            (if status = 400 then
               ValidationError_init error_message (dict_get response_data ''errors'' PNone) dtl
             else if status = 401 then AuthenticationError_init error_message code dtl
             else if status = 403 then AuthorizationError_init error_message code dtl
             else if status = 404 then NotFoundError_init error_message PNone PNone dtl
             else if status = 409 then ConflictError_init error_message code dtl
             else if status = 429 then
               RateLimitError_init error_message (dict_get response_data ''retry_after'' PNone) dtl
             else if status \<ge> 500 then ServerError_init error_message status code dtl
             else CRMError (CRMError_init error_message (Some status) code dtl))
      in (raised,
          if truthy dtl then
            (case fields_of raised of
               Some b \<Rightarrow> AList.update ''details'' (details b) response_data
             | None \<Rightarrow> response_data)
          else response_data))"

section \<open>Token refresh and dispatch\<close>

definition get_headers :: "CRMClient \<Rightarrow> (string \<times> hvalue) list" where
  "get_headers c =
     (let headers = [(''Content-Type'', Plain ''application/json''),
                     (''Accept'', Plain ''application/json'')];
          headers =
            (if truthy (of_opt (api_key c)) then
               AList.update ''X-API-Key'' (Plain (case api_key c of Some k \<Rightarrow> k | None \<Rightarrow> [])) headers
             else if truthy (access_token c) then
               AList.update ''Authorization'' (Bearer (access_token c)) headers
             else headers)
      in if truthy (of_opt (tenant_id c)) then
           AList.update ''X-Tenant-ID'' (Plain (case tenant_id c of Some t \<Rightarrow> t | None \<Rightarrow> [])) headers
         else headers)"

definition refresh_call :: "CRMClient \<Rightarrow> http_call" where
  \<comment> \<open>\<open>self._client.post("/api/v1/auth/refresh", json={"refresh_token": ...})\<close>\<close>
  "refresh_call c =
     \<lparr>call_method = ''POST'', call_url = ''/api/v1/auth/refresh'', call_params = PNone,
      call_json = PDict [(''refresh_token'', refresh_token c)], call_headers = []\<rparr>"

definition refresh_access_token :: "env \<Rightarrow> world \<Rightarrow> (exc + unit) \<times> world" where
  "refresh_access_token e w =
     (if \<not> truthy (refresh_token (client w)) then
        (Inl (AuthenticationError_init (PStr ''No refresh token available'') PNone PNone), w)
      else
        (let (res, w1) = transport_send e w (refresh_call (client w)) in
         case res of
           TimeoutException descr \<Rightarrow> (Inl (HttpxTimeoutException descr), w1)
         | RequestError descr \<Rightarrow> (Inl (HttpxRequestError descr), w1)
         | Response r \<Rightarrow>
             if resp_status r \<noteq> 200 then
               (Inl (AuthenticationError_init (PStr ''Failed to refresh token'') PNone PNone), w1)
             else
               (case resp_json r of
                  None \<Rightarrow> (Inl JSONDecodeError, w1)
                | Some data \<Rightarrow>
                    (case py_getitem data ''access_token'' of
                       Inl ex \<Rightarrow> (Inl ex, w1)
                     | Inr tok \<Rightarrow>
                         (let w2 = w1\<lparr>client := (client w1)\<lparr>access_token := tok\<rparr>\<rparr>;
                              (now, w3) = datetime_now e w2
                          in case py_get data ''expires_in'' (PInt 3600) of
                               Inl ex \<Rightarrow> (Inl ex, w3)
                             | Inr v \<Rightarrow>
                                 (case timedelta_seconds v of
                                    Inl ex \<Rightarrow> (Inl ex, w3)
                                  | Inr d \<Rightarrow>
                                      (Inr (),
                                       w3\<lparr>client :=
                                            (client w3)\<lparr>token_expires_at := Some (now + d)\<rparr>\<rparr>)))))))"

definition preflight :: "env \<Rightarrow> world \<Rightarrow> (exc + unit) \<times> world" where
  \<comment> \<open>\<open>if self._should_refresh_token(): self._refresh_access_token()\<close>, the first
      statement of \<open>request\<close>\<close>
  "preflight e w =
     (let (refresh, w1) = should_refresh_token e w
      in if refresh then refresh_access_token e w1 else (Inr (), w1))"

definition request ::
  "env \<Rightarrow> world \<Rightarrow> string \<Rightarrow> string \<Rightarrow> pyval \<Rightarrow> pyval \<Rightarrow> (exc + response) \<times> world" where
  "request e w method path params json =
     (case preflight e w of
        (Inl ex, w2) \<Rightarrow> (Inl ex, w2)
      | (Inr _, w2) \<Rightarrow>
          (let (res, w3) =
                 transport_send e w2
                   \<lparr>call_method = method, call_url = path, call_params = params,
                    call_json = json, call_headers = get_headers (client w2)\<rparr>
           in case res of
                TimeoutException descr \<Rightarrow>
                  (Inl (TimeoutError_init (PStr (''Request timed out: '' @ descr))
                          (timeout (client w3)) PNone), w3)
              | RequestError descr \<Rightarrow>
                  (Inl (NetworkError_init (PStr (''Network error: '' @ descr))
                          (Some descr) PNone), w3)
              | Response r \<Rightarrow>
                  if resp_status r \<ge> 400 then
                    (case (case resp_json r of
                             Some data \<Rightarrow> data
                           | None \<Rightarrow> PDict [(''error'', PStr (resp_text r))]) of
                       PDict error_data \<Rightarrow>
                         (Inl (fst (raise_for_status (resp_status r) error_data)), w3)
                     | _ \<Rightarrow> (Inl AttributeError, w3))
                  else (Inr r, w3)))"

definition response_json :: "(exc + response) \<times> world \<Rightarrow> (exc + pyval) \<times> world" where
  \<comment> \<open>\<open>return response.json()\<close> after a dispatch\<close>
  "response_json rw =
     (case rw of
        (Inl ex, w) \<Rightarrow> (Inl ex, w)
      | (Inr r, w) \<Rightarrow>
          (case resp_json r of None \<Rightarrow> (Inl JSONDecodeError, w) | Some data \<Rightarrow> (Inr data, w)))"

definition get :: "env \<Rightarrow> world \<Rightarrow> string \<Rightarrow> pyval \<Rightarrow> (exc + pyval) \<times> world" where
  "get e w path params = response_json (request e w ''GET'' path params PNone)"

definition post :: "env \<Rightarrow> world \<Rightarrow> string \<Rightarrow> pyval \<Rightarrow> (exc + pyval) \<times> world" where
  "post e w path json = response_json (request e w ''POST'' path PNone json)"

definition put :: "env \<Rightarrow> world \<Rightarrow> string \<Rightarrow> pyval \<Rightarrow> (exc + pyval) \<times> world" where
  "put e w path json = response_json (request e w ''PUT'' path PNone json)"

definition delete :: "env \<Rightarrow> world \<Rightarrow> string \<Rightarrow> (exc + unit) \<times> world" where
  "delete e w path =
     (case request e w ''DELETE'' path PNone PNone of
        (Inl ex, w') \<Rightarrow> (Inl ex, w')
      | (Inr _, w') \<Rightarrow> (Inr (), w'))"

section \<open>Authentication service\<close>

text \<open>
  The model classes of \<open>models.py\<close> are pydantic models: instantiating one runs the
  validation of that library, which is not part of the repository. Where the client
  instantiates a model from a decoded dict, the model takes the validation as a
  parameter: a function from the dict to the instance, \<open>None\<close> where pydantic raises its
  \<open>ValidationError\<close>.
\<close>

definition store_tokens ::
  "((string \<times> pyval) list \<Rightarrow> 'r option) \<Rightarrow> env \<Rightarrow> pyval \<Rightarrow> world \<Rightarrow> (exc + 'r) \<times> world" where
  \<comment> \<open>the statements of \<open>login\<close> that follow the call of \<open>post\<close>\<close>
  "store_tokens LoginResponse e data w1 =
     (case py_getitem data ''access_token'' of
        Inl ex \<Rightarrow> (Inl ex, w1)
      | Inr tok \<Rightarrow>
          (let w2 = w1\<lparr>client := (client w1)\<lparr>access_token := tok\<rparr>\<rparr>
           in case py_getitem data ''refresh_token'' of
                Inl ex \<Rightarrow> (Inl ex, w2)
              | Inr rtok \<Rightarrow>
                  (let w3 = w2\<lparr>client := (client w2)\<lparr>refresh_token := rtok\<rparr>\<rparr>;
                       (now, w4) = datetime_now e w3
                   in case py_get data ''expires_in'' (PInt 3600) of
                        Inl ex \<Rightarrow> (Inl ex, w4)
                      | Inr v \<Rightarrow>
                          (case timedelta_seconds v of
                             Inl ex \<Rightarrow> (Inl ex, w4)
                           | Inr d \<Rightarrow>
                               (let w5 = w4\<lparr>client :=
                                              (client w4)\<lparr>token_expires_at := Some (now + d)\<rparr>\<rparr>
                                in case data of
                                     PDict kwargs \<Rightarrow>
                                       (case LoginResponse kwargs of
                                          None \<Rightarrow> (Inl PydanticValidationError, w5)
                                        | Some r \<Rightarrow> (Inr r, w5))
                                   | _ \<Rightarrow> (Inl TypeError, w5))))))"

definition login_json :: "string \<Rightarrow> string \<Rightarrow> string option \<Rightarrow> CRMClient \<Rightarrow> pyval" where
  \<comment> \<open>the body \<open>login\<close> posts\<close>
  "login_json email password tid c =
     PDict [(''email'', PStr email), (''password'', PStr password),
            (''tenant_id'', py_or (of_opt tid) (of_opt (tenant_id c)))]"

definition login ::
  "((string \<times> pyval) list \<Rightarrow> 'r option) \<Rightarrow> env \<Rightarrow> world \<Rightarrow> string \<Rightarrow> string \<Rightarrow> string option
     \<Rightarrow> (exc + 'r) \<times> world" where
  "login LoginResponse e w email password tid =
     (case post e w ''/api/v1/auth/login'' (login_json email password tid (client w)) of
        (Inl ex, w1) \<Rightarrow> (Inl ex, w1)
      | (Inr data, w1) \<Rightarrow> store_tokens LoginResponse e data w1)"

definition logout :: "env \<Rightarrow> world \<Rightarrow> (exc + unit) \<times> world" where
  \<comment> \<open>\<open>try: post(...) finally:\<close> the three assignments run on both ways out\<close>
  "logout e w =
     (case post e w ''/api/v1/auth/logout'' PNone of
        (res, w1) \<Rightarrow>
          (case res of Inl ex \<Rightarrow> Inl ex | Inr _ \<Rightarrow> Inr (),
           w1\<lparr>client := (client w1)\<lparr>access_token := PNone, refresh_token := PNone,
                                    token_expires_at := None\<rparr>\<rparr>))"

section \<open>Pagination\<close>

record 'a PaginatedResponse =
  data :: "'a list"
  total :: int
  page :: int
  per_page :: int
  total_pages :: int

definition has_next :: "'a PaginatedResponse \<Rightarrow> bool" where
  "has_next r = (page r < total_pages r)"

definition has_prev :: "'a PaginatedResponse \<Rightarrow> bool" where
  "has_prev r = (page r > 1)"

text \<open>
  The validation of a field declared \<open>int\<close>: a Python \<open>int\<close> is taken as it is; what
  pydantic makes of a value of another type (it converts some, and rejects the others)
  is the parameter \<open>lax\<close>.
\<close>

definition pydantic_int :: "(pyval \<Rightarrow> int option) \<Rightarrow> pyval \<Rightarrow> exc + int" where
  "pydantic_int lax v =
     (case v of
        PInt n \<Rightarrow> Inr n
      | _ \<Rightarrow> (case lax v of Some n \<Rightarrow> Inr n | None \<Rightarrow> Inl PydanticValidationError))"

definition PaginatedResponse_init ::
  "(pyval \<Rightarrow> int option) \<Rightarrow> 'a list \<Rightarrow> pyval \<Rightarrow> int \<Rightarrow> int \<Rightarrow> pyval
     \<Rightarrow> exc + 'a PaginatedResponse" where
  "PaginatedResponse_init lax items tot pg per tot_pages =
     (case pydantic_int lax tot of
        Inl ex \<Rightarrow> Inl ex
      | Inr t \<Rightarrow>
          (case pydantic_int lax tot_pages of
             Inl ex \<Rightarrow> Inl ex
           | Inr tp \<Rightarrow>
               Inr \<lparr>data = items, total = t, page = pg, per_page = per, total_pages = tp\<rparr>))"

text \<open>Iteration over a value, and the comprehension \<open>[Customer(**c) for c in ...]\<close>: \<open>**c\<close>
  needs a mapping.\<close>

fun py_iter :: "pyval \<Rightarrow> exc + pyval list" where
  "py_iter (PList xs) = Inr xs"
| "py_iter (PDict kvs) = Inr (map (\<lambda>kv. PStr (fst kv)) kvs)"
| "py_iter (PStr s) = Inr (map (\<lambda>c. PStr [c]) s)"
| "py_iter _ = Inl TypeError"

fun construct_all :: "((string \<times> pyval) list \<Rightarrow> 'a option) \<Rightarrow> pyval list \<Rightarrow> exc + 'a list" where
  "construct_all Model [] = Inr []"
| "construct_all Model (PDict kwargs # cs) =
     (case Model kwargs of
        None \<Rightarrow> Inl PydanticValidationError
      | Some x \<Rightarrow>
          (case construct_all Model cs of Inl ex \<Rightarrow> Inl ex | Inr xs \<Rightarrow> Inr (x # xs)))"
| "construct_all Model (_ # cs) = Inl TypeError"

definition paginate ::
  "(pyval \<Rightarrow> int option) \<Rightarrow> ((string \<times> pyval) list \<Rightarrow> 'a option) \<Rightarrow> pyval \<Rightarrow> int \<Rightarrow> int
     \<Rightarrow> exc + 'a PaginatedResponse" where
  \<comment> \<open>the \<open>return PaginatedResponse[...](...)\<close> statement of a \<open>list\<close> method, on the decoded reply\<close>
  "paginate lax Model reply pg per =
     (case py_get reply ''data'' (PList []) of
        Inl ex \<Rightarrow> Inl ex
      | Inr seq \<Rightarrow>
          (case py_iter seq of
             Inl ex \<Rightarrow> Inl ex
           | Inr cs \<Rightarrow>
               (case construct_all Model cs of
                  Inl ex \<Rightarrow> Inl ex
                | Inr items \<Rightarrow>
                    (case py_get reply ''total'' (PInt 0) of
                       Inl ex \<Rightarrow> Inl ex
                     | Inr tot \<Rightarrow>
                         (case py_get reply ''total_pages'' (PInt 1) of
                            Inl ex \<Rightarrow> Inl ex
                          | Inr tot_pages \<Rightarrow>
                              PaginatedResponse_init lax items tot pg per tot_pages)))))"

definition list_params :: "int \<Rightarrow> int \<Rightarrow> string option \<Rightarrow> string option \<Rightarrow> pyval" where
  "list_params pg per status search =
     (let params = [(''page'', PInt pg), (''per_page'', PInt per)];
          params = (if truthy (of_opt status)
                    then AList.update ''status'' (of_opt status) params else params);
          params = (if truthy (of_opt search)
                    then AList.update ''search'' (of_opt search) params else params)
      in PDict params)"

definition CustomerService_list ::
  "(pyval \<Rightarrow> int option) \<Rightarrow> ((string \<times> pyval) list \<Rightarrow> 'a option) \<Rightarrow> env \<Rightarrow> world
     \<Rightarrow> int \<Rightarrow> int \<Rightarrow> string option \<Rightarrow> string option
     \<Rightarrow> (exc + 'a PaginatedResponse) \<times> world" where
  "CustomerService_list lax Customer e w pg per status search =
     (case get e w ''/api/v1/customers'' (list_params pg per status search) of
        (Inl ex, w1) \<Rightarrow> (Inl ex, w1)
      | (Inr reply, w1) \<Rightarrow> (paginate lax Customer reply pg per, w1))"

section \<open>Example data\<close>

text \<open>
  A client whose token expires at second 1200, surroundings in which the clock stands at
  second 1000 and every call of the HTTP library has the same outcome, and the state of
  a client that has not read the clock or sent anything yet.
\<close>

definition example_client :: CRMClient where
  "example_client =
     \<lparr>base_url = ''https://api.crmplatform.my'', api_key = None, tenant_id = None,
      timeout = PFloat (Float True (Some 30000000)), auto_refresh = True,
      access_token = PStr ''token-1'', refresh_token = PStr ''refresh-1'',
      token_expires_at = Some (seconds 1200)\<rparr>"

definition example_env :: "transport_result \<Rightarrow> env" where
  "example_env outcome = \<lparr>clock = (\<lambda>_. seconds 1000), server = (\<lambda>_. outcome)\<rparr>"

definition fresh_world :: "CRMClient \<Rightarrow> world" where
  "fresh_world c = \<lparr>client = c, ticks = 0, sent = []\<rparr>"

text \<open>Replies of the server: one with no body, and a refresh reply whose \<open>expires_in\<close>
  is \<open>null\<close>.\<close>

definition empty_reply :: "int \<Rightarrow> response" where
  "empty_reply status = \<lparr>resp_status = status, resp_text = [], resp_json = None\<rparr>"

definition null_expiry_reply :: response where
  \<open>null_expiry_reply =
     \<lparr>resp_status = 200, resp_text = ''{"access_token": "token-2", "expires_in": null}'',
      resp_json = Some (PDict [(''access_token'', PStr ''token-2''), (''expires_in'', PNone)])\<rparr>\<close>

text \<open>A client whose token is far from its expiry at second 1000.\<close>

definition settled_client :: CRMClient where
  "settled_client = example_client\<lparr>token_expires_at := Some (seconds 5000)\<rparr>"

text \<open>The second page of eighteen customers, ten to a page.\<close>

definition page_reply :: response where
  \<open>page_reply =
     \<lparr>resp_status = 200,
      resp_text = ''{"data": [{"id": 1}, {"id": 2}, {"id": 3}, {"id": 4}, {"id": 5}, {"id": 6}, {"id": 7}, {"id": 8}], "total": 18, "total_pages": 2}'',
      resp_json = Some (PDict
        [(''data'', PList (map (\<lambda>i. PDict [(''id'', PInt i)]) [1, 2, 3, 4, 5, 6, 7, 8])),
         (''total'', PInt 18), (''total_pages'', PInt 2)])\<rparr>\<close>

text \<open>A client that has not logged in, and the replies to a login that grant the token
  for a minute and for an hour.\<close>

definition new_client :: CRMClient where
  "new_client =
     example_client\<lparr>access_token := PNone, refresh_token := PNone, token_expires_at := None\<rparr>"

definition login_fields :: "int \<Rightarrow> (string \<times> pyval) list" where
  "login_fields expires_in =
     [(''access_token'', PStr ''token-2''), (''refresh_token'', PStr ''refresh-2''),
      (''token_type'', PStr ''Bearer''), (''expires_in'', PInt expires_in),
      (''user'', PDict [(''id'', PStr ''u-1''), (''email'', PStr ''user@example.com'')])]"

definition short_login_reply :: response where
  \<open>short_login_reply =
     \<lparr>resp_status = 200,
      resp_text = ''{"access_token": "token-2", "refresh_token": "refresh-2", "token_type": "Bearer", "expires_in": 60, "user": {"id": "u-1", "email": "user@example.com"}}'',
      resp_json = Some (PDict (login_fields 60))\<rparr>\<close>

definition hour_login_reply :: response where
  \<open>hour_login_reply =
     \<lparr>resp_status = 200,
      resp_text = ''{"access_token": "token-2", "refresh_token": "refresh-2", "token_type": "Bearer", "expires_in": 3600, "user": {"id": "u-1", "email": "user@example.com"}}'',
      resp_json = Some (PDict (login_fields 3600))\<rparr>\<close>

text \<open>A reply that accepts a refresh and grants the new token for an hour.\<close>

definition refresh_reply :: response where
  \<open>refresh_reply =
     \<lparr>resp_status = 200, resp_text = ''{"access_token": "token-2", "expires_in": 3600}'',
      resp_json = Some (PDict [(''access_token'', PStr ''token-2''), (''expires_in'', PInt 3600)])\<rparr>\<close>

section \<open>The taxonomy table of the specification\<close>

text \<open>
  Written from the table of the specification (section 4.4), not from the source: the
  kind each status resolves to.
\<close>

definition taxonomy_kind :: "int \<Rightarrow> kind" where
  "taxonomy_kind status =
     (if status = 400 then Validation
      else if status = 401 then Authentication
      else if status = 403 then Authorization
      else if status = 404 then NotFound
      else if status = 409 then Conflict
      else if status = 429 then RateLimit
      else if status \<ge> 500 then Server
      else Generic)"

section \<open>What a dispatch leaves alone\<close>

lemma should_refresh_token_frame:
  "client (snd (should_refresh_token e w)) = client w"
  "sent (snd (should_refresh_token e w)) = sent w"
  by (auto simp: should_refresh_token_def datetime_now_def split: option.splits)

lemma request_without_refresh:
  assumes "\<not> fst (should_refresh_token e w)"
  shows "client (snd (request e w m p q j)) = client w"
  using assms should_refresh_token_frame(1)[of e w]
  by (cases "should_refresh_token e w")
     (auto simp: request_def preflight_def transport_send_def
           split: prod.splits sum.splits transport_result.splits pyval.splits option.splits)

lemma response_json_world: "snd (response_json rw) = snd rw"
  by (auto simp: response_json_def split: prod.splits sum.splits option.splits)

section \<open>The pre-flight refresh\<close>

lemma refresh_access_token_rejected:
  assumes "truthy (refresh_token (client w))"
      and "server e (length (sent w)) = Response r" and "resp_status r \<noteq> 200"
  shows "refresh_access_token e w =
           (Inl (AuthenticationError_init (PStr ''Failed to refresh token'') PNone PNone),
            w\<lparr>sent := sent w @ [refresh_call (client w)]\<rparr>)"
  using assms by (simp add: refresh_access_token_def transport_send_def)

lemma refresh_access_token_sent:
  assumes "truthy (refresh_token (client w))"
  shows "sent (snd (refresh_access_token e w)) = sent w @ [refresh_call (client w)]"
  using assms
  by (auto simp: refresh_access_token_def transport_send_def datetime_now_def Let_def
           split: transport_result.splits option.splits sum.splits prod.splits)

lemma should_refresh_token_truthy:
  "fst (should_refresh_token e w) \<Longrightarrow> truthy (refresh_token (client w))"
  by (auto simp: should_refresh_token_def split: if_splits option.splits)

lemma preflight_refresh:
  "fst (should_refresh_token e w) \<Longrightarrow>
   preflight e w = refresh_access_token e (snd (should_refresh_token e w))"
  by (cases "should_refresh_token e w") (simp add: preflight_def)

lemma request_sent:
  "\<exists>c. sent (snd (request e w m p q j)) = sent (snd (preflight e w)) \<or>
       (sent (snd (request e w m p q j)) = sent (snd (preflight e w)) @ [c]
        \<and> call_method c = m \<and> call_url c = p \<and> call_params c = q \<and> call_json c = j)"
  by (cases "preflight e w")
     (auto simp: request_def transport_send_def
           split: sum.splits transport_result.splits pyval.splits option.splits)

lemma request_preflight_failed:
  "preflight e w = (Inl ex, w2) \<Longrightarrow> request e w m p q j = (Inl ex, w2)"
  by (simp add: request_def)

lemma should_refresh_token_ticks:
  "fst (should_refresh_token e w) \<Longrightarrow> ticks (snd (should_refresh_token e w)) = Suc (ticks w)"
  by (auto simp: should_refresh_token_def datetime_now_def split: if_splits option.splits)

lemma refresh_access_token_accepted:
  assumes "truthy (refresh_token (client w))"
      and "server e (length (sent w)) = Response r" and "resp_status r = 200"
      and "resp_json r = Some (PDict kvs)" and "map_of kvs ''access_token'' = Some tok"
      and "timedelta_seconds (dict_get kvs ''expires_in'' (PInt 3600)) = Inr d"
  shows "refresh_access_token e w =
           (Inr (),
            \<lparr>client = (client w)\<lparr>access_token := tok,
                                  token_expires_at := Some (clock e (ticks w) + d)\<rparr>,
             ticks = Suc (ticks w), sent = sent w @ [refresh_call (client w)]\<rparr>)"
  using assms
  by (simp add: refresh_access_token_def transport_send_def datetime_now_def Let_def)

lemma request_after_preflight:
  assumes "preflight e w = (Inr u, w2)"
  shows "sent (snd (request e w m p q j))
           = sent w2 @ [\<lparr>call_method = m, call_url = p, call_params = q, call_json = j,
                          call_headers = get_headers (client w2)\<rparr>]
         \<and> client (snd (request e w m p q j)) = client w2"
  using assms
  by (auto simp: request_def transport_send_def
           split: transport_result.splits pyval.splits option.splits)

section \<open>Error replies\<close>

lemma request_error_status:
  assumes "preflight e w = (Inr u, w2)"
      and "server e (length (sent w2)) = Response r" and "resp_status r \<ge> 400"
      and "resp_json r = None"
  shows "fst (request e w m p q j) =
           Inl (fst (raise_for_status (resp_status r) [(''error'', PStr (resp_text r))]))"
  using assms by (simp add: request_def transport_send_def)

section \<open>The error taxonomy\<close>

lemma truthy_details_entry:
  "truthy (dict_get body ''details'' (PDict [])) \<Longrightarrow>
   map_of body ''details'' = Some (dict_get body ''details'' (PDict []))"
  by (auto simp: dict_get_def split: option.splits)

lemma raise_for_status_kind:
  assumes "(status \<noteq> 400 \<and> status \<noteq> 429)
           \<or> \<not> truthy (dict_get body ''details'' (PDict []))
           \<or> (\<exists>kvs. dict_get body ''details'' (PDict []) = PDict kvs)
           \<or> (status = 400 \<and> \<not> truthy (dict_get body ''errors'' PNone))
           \<or> (status = 429 \<and> \<not> truthy (dict_get body ''retry_after'' PNone))"
  shows "kind_of (fst (raise_for_status status body)) = Some (taxonomy_kind status)"
  using assms
  by (auto simp: raise_for_status_def taxonomy_kind_def Let_def ValidationError_init_def
        AuthenticationError_init_def AuthorizationError_init_def NotFoundError_init_def
        ConflictError_init_def RateLimitError_init_def ServerError_init_def store_if_def
        py_or_def)

lemma raise_for_status_untyped:
  assumes "truthy (dict_get body ''details'' (PDict []))"
      and "\<forall>kvs. dict_get body ''details'' (PDict []) \<noteq> PDict kvs"
      and "(status = 400 \<and> truthy (dict_get body ''errors'' PNone))
           \<or> (status = 429 \<and> truthy (dict_get body ''retry_after'' PNone))"
  shows "raise_for_status status body = (TypeError, body)"
  using assms
  by (cases "dict_get body ''details'' (PDict [])")
     (auto simp: raise_for_status_def Let_def ValidationError_init_def
        RateLimitError_init_def store_if_def py_or_def)

lemma raise_for_status_body:
  assumes "\<not> truthy (dict_get body ''details'' (PDict [])) \<or> (status \<noteq> 400 \<and> status \<noteq> 429)"
  shows "snd (raise_for_status status body) = body"
proof (cases "truthy (dict_get body ''details'' (PDict []))")
  case False
  then show ?thesis by (simp add: raise_for_status_def Let_def)
next
  case True
  then have m: "map_of body ''details'' = Some (dict_get body ''details'' (PDict []))"
    by (rule truthy_details_entry)
  have u: "AList.update ''details'' (dict_get body ''details'' (PDict [])) body = body"
    using m by (rule AList.update_triv)
  from True assms have s: "status \<noteq> 400" "status \<noteq> 429" by auto
  show ?thesis
    using True s u
    by (simp add: raise_for_status_def Let_def
        AuthenticationError_init_def AuthorizationError_init_def NotFoundError_init_def
        ConflictError_init_def ServerError_init_def store_if_def CRMError_init_def
        py_or_def)
qed

section \<open>Pagination\<close>

lemma pydantic_int_PInt: "pydantic_int lax (PInt n) = Inr n"
  by (simp add: pydantic_int_def)

lemma paginate_fields:
  assumes "paginate lax Model reply pg per = Inr r"
  shows "page r = pg \<and> per_page r = per
       \<and> (\<exists>kvs. reply = PDict kvs
            \<and> pydantic_int lax (dict_get kvs ''total'' (PInt 0)) = Inr (total r)
            \<and> pydantic_int lax (dict_get kvs ''total_pages'' (PInt 1)) = Inr (total_pages r))"
proof (cases reply)
  case (PDict kvs)
  with assms show ?thesis
    by (auto simp: paginate_def PaginatedResponse_init_def split: sum.splits)
qed (use assms in \<open>simp_all add: paginate_def\<close>)

lemma paginate_example:
  assumes "construct_all Model cs = Inr items"
  shows "paginate lax Model
           (PDict [(''data'', PList cs), (''total'', PInt 18), (''total_pages'', PInt 2)]) 2 10
         = Inr \<lparr>data = items, total = 18, page = 2, per_page = 10, total_pages = 2\<rparr>"
  using assms
  by (simp add: paginate_def PaginatedResponse_init_def dict_get_def pydantic_int_PInt)

section \<open>Login\<close>

lemma store_tokens_success:
  assumes "store_tokens LoginResponse e reply w1 = (Inr r, w')"
  shows "\<exists>v d. py_get reply ''expires_in'' (PInt 3600) = Inr v
             \<and> timedelta_seconds v = Inr d
             \<and> token_expires_at (client w') = Some (clock e (ticks w1) + d)
             \<and> ticks w' = Suc (ticks w1)"
  using assms
  by (auto simp: store_tokens_def datetime_now_def Let_def
           split: sum.splits pyval.splits option.splits)

lemma login_success:
  assumes "login LoginResponse e w email password tid = (Inr r, w')"
  shows "\<exists>reply w1. post e w ''/api/v1/auth/login'' (login_json email password tid (client w))
                     = (Inr reply, w1)
                 \<and> store_tokens LoginResponse e reply w1 = (Inr r, w')"
  using assms
  by (cases "post e w ''/api/v1/auth/login'' (login_json email password tid (client w))")
     (auto simp: login_def split: sum.splits)

lemmas eval_defs = login_def login_json_def store_tokens_def post_def response_json_def request_def
  preflight_def should_refresh_token_def refresh_access_token_def refresh_call_def
  datetime_now_def transport_send_def example_env_def fresh_world_def new_client_def
  example_client_def seconds_def minutes_def login_fields_def dict_get_def py_or_def Let_def

section \<open>Properties\<close>

text \<open>
  C1. \<open>_should_refresh_token\<close> returns true exactly when auto_refresh is enabled, a
  refresh token is present (a value Python takes for true, as the source tests it), an
  expiry is recorded, and the clock reads at least the expiry minus five minutes.
  Equivalently, with auto_refresh on, a refresh token and the expiry \<open>t\<close> after the
  reading of the clock, it returns true exactly when \<open>t\<close> is at most 300 seconds.
\<close>

theorem should_refresh_token_iff:
  "(fst (should_refresh_token e w) \<longleftrightarrow>
      auto_refresh (client w) \<and> truthy (refresh_token (client w)) \<and>
      (\<exists>expires_at. token_expires_at (client w) = Some expires_at \<and>
                    clock e (ticks w) \<ge> expires_at - minutes 5))
   \<and> (auto_refresh (client w) \<and> truthy (refresh_token (client w)) \<and>
        token_expires_at (client w) = Some (clock e (ticks w) + t)
        \<longrightarrow> (fst (should_refresh_token e w) \<longleftrightarrow> t \<le> seconds 300))"
  by (auto simp: should_refresh_token_def datetime_now_def minutes_def seconds_def
           split: option.splits)

theorem should_refresh_token_iff_witness:
  "token_expires_at (client (fresh_world example_client)) =
     Some (clock (example_env (RequestError ''down'')) 0 + seconds 200)
   \<and> fst (should_refresh_token (example_env (RequestError ''down''))
            (fresh_world example_client))"
  using should_refresh_token_iff
          [of "example_env (RequestError ''down'')" "fresh_world example_client" "seconds 200"]
  by (simp add: example_env_def fresh_world_def example_client_def seconds_def minutes_def)

text \<open>
  C10. A dispatch that finds no refresh due at entry leaves the client as it was,
  access token, refresh token and expiry included, whatever its outcome: a timeout, a
  network error, an error status or a response. The same holds for \<open>get\<close>, \<open>post\<close>,
  \<open>put\<close> and \<open>delete\<close>.
\<close>

theorem dispatch_frame:
  assumes "\<not> fst (should_refresh_token e w)"
  shows "client (snd (request e w m p q j)) = client w
       \<and> client (snd (get e w p q)) = client w
       \<and> client (snd (post e w p j)) = client w
       \<and> client (snd (put e w p j)) = client w
       \<and> client (snd (delete e w p)) = client w"
proof -
  have r: "\<And>m p q j. client (snd (request e w m p q j)) = client w"
    using assms by (rule request_without_refresh)
  have d: "snd (delete e w p) = snd (request e w ''DELETE'' p PNone PNone)"
    by (auto simp: delete_def split: prod.splits sum.splits)
  show ?thesis
    using r d by (simp add: get_def post_def put_def response_json_world)
qed

theorem dispatch_frame_witness:
  "\<not> fst (should_refresh_token (example_env (TimeoutException ''read''))
            (fresh_world (example_client\<lparr>token_expires_at := Some (seconds 5000)\<rparr>)))
   \<and> kind_of (case fst (request (example_env (TimeoutException ''read''))
            (fresh_world (example_client\<lparr>token_expires_at := Some (seconds 5000)\<rparr>))
            ''GET'' ''/api/v1/customers'' PNone PNone) of Inl ex \<Rightarrow> ex) = Some Timeout
   \<and> client (snd (request (example_env (TimeoutException ''read''))
            (fresh_world (example_client\<lparr>token_expires_at := Some (seconds 5000)\<rparr>))
            ''GET'' ''/api/v1/customers'' PNone PNone))
     = example_client\<lparr>token_expires_at := Some (seconds 5000)\<rparr>"
proof -
  have h: "\<not> fst (should_refresh_token (example_env (TimeoutException ''read''))
            (fresh_world (example_client\<lparr>token_expires_at := Some (seconds 5000)\<rparr>)))"
    by (simp add: should_refresh_token_def datetime_now_def example_env_def fresh_world_def
          example_client_def seconds_def minutes_def)
  have k: "kind_of (case fst (request (example_env (TimeoutException ''read''))
            (fresh_world (example_client\<lparr>token_expires_at := Some (seconds 5000)\<rparr>))
            ''GET'' ''/api/v1/customers'' PNone PNone) of Inl ex \<Rightarrow> ex) = Some Timeout"
    by (simp add: request_def preflight_def should_refresh_token_def datetime_now_def
          transport_send_def example_env_def fresh_world_def example_client_def seconds_def minutes_def
          TimeoutError_init_def store_if_def py_or_def CRMError_init_def)
  show ?thesis
    using h k dispatch_frame [OF h, of "''GET''" "''/api/v1/customers''" PNone PNone]
    by (simp add: fresh_world_def)
qed

text \<open>
  C2. Token refresh is meant to be atomic: the access token and the expiry change
  together or not at all. The source assigns the access token before it computes the
  expiry, so a reply with status 200 whose \<open>expires_in\<close> is not a number breaks this:
  on \<open>{"access_token": "token-2", "expires_in": null}\<close> the call raises \<open>TypeError\<close>
  with the new access token stored and the old expiry still in place.
\<close>

theorem refresh_access_token_mixed_state:
  "refresh_access_token (example_env (Response null_expiry_reply)) (fresh_world example_client)
   = (Inl TypeError,
      \<lparr>client = example_client\<lparr>access_token := PStr ''token-2''\<rparr>, ticks = 1,
       sent = [refresh_call example_client]\<rparr>)
   \<and> token_expires_at (example_client\<lparr>access_token := PStr ''token-2''\<rparr>)
     = token_expires_at example_client
   \<and> access_token (example_client\<lparr>access_token := PStr ''token-2''\<rparr>)
     \<noteq> access_token example_client"
  by (simp add: refresh_access_token_def transport_send_def datetime_now_def example_env_def
        fresh_world_def example_client_def null_expiry_reply_def dict_get_def Let_def)

text \<open>
  C3. When a refresh is due at entry, the first call a dispatch sends is the refresh
  call, and the original request is the call after it or is not sent at all. If the
  refresh succeeds, the original request is sent next, with the headers of the client
  as the refresh left it: after a reply 200 that holds an access token, the client has
  that token and the new expiry, and the request carries them. If the refresh fails,
  the exception it raises is what the dispatch raises, with nothing sent after the
  refresh call. In particular a reply to the refresh call with a status other than
  200, which covers every status outside 2xx, makes the dispatch raise the
  \<open>AuthenticationError\<close> "Failed to refresh token" and leaves the client as it was.
  Without a refresh token, \<open>_refresh_access_token\<close> raises the \<open>AuthenticationError\<close>
  "No refresh token available" and sends nothing.
\<close>

theorem request_refresh_first:
  assumes "fst (should_refresh_token e w)"
  shows "(\<exists>rest. sent (snd (request e w m p q j)) = sent w @ refresh_call (client w) # rest
             \<and> (rest = [] \<or>
                  rest = [\<lparr>call_method = m, call_url = p, call_params = q, call_json = j,
                           call_headers = get_headers (client (snd (request e w m p q j)))\<rparr>]))
       \<and> (\<forall>ex w2. refresh_access_token e (snd (should_refresh_token e w)) = (Inl ex, w2)
             \<longrightarrow> request e w m p q j = (Inl ex, w2)
                 \<and> sent w2 = sent w @ [refresh_call (client w)])
       \<and> (\<forall>w2. refresh_access_token e (snd (should_refresh_token e w)) = (Inr (), w2)
             \<longrightarrow> sent (snd (request e w m p q j))
                   = sent w @ [refresh_call (client w),
                               \<lparr>call_method = m, call_url = p, call_params = q, call_json = j,
                                call_headers = get_headers (client w2)\<rparr>]
                 \<and> client (snd (request e w m p q j)) = client w2)
       \<and> (\<forall>r kvs tok d.
             server e (length (sent w)) = Response r \<and> resp_status r = 200
             \<and> resp_json r = Some (PDict kvs) \<and> map_of kvs ''access_token'' = Some tok
             \<and> timedelta_seconds (dict_get kvs ''expires_in'' (PInt 3600)) = Inr d
             \<longrightarrow> client (snd (request e w m p q j))
                   = (client w)\<lparr>access_token := tok,
                                token_expires_at := Some (clock e (Suc (ticks w)) + d)\<rparr>
                 \<and> sent (snd (request e w m p q j))
                   = sent w @ [refresh_call (client w),
                               \<lparr>call_method = m, call_url = p, call_params = q, call_json = j,
                                call_headers =
                                  get_headers
                                    ((client w)\<lparr>access_token := tok,
                                       token_expires_at := Some (clock e (Suc (ticks w)) + d)\<rparr>)\<rparr>])
       \<and> (\<forall>r. server e (length (sent w)) = Response r \<and> resp_status r \<noteq> 200
             \<longrightarrow> fst (request e w m p q j) =
                   Inl (AuthenticationError_init (PStr ''Failed to refresh token'') PNone PNone)
                 \<and> kind_of (AuthenticationError_init (PStr ''Failed to refresh token'') PNone PNone)
                   = Some Authentication
                 \<and> sent (snd (request e w m p q j)) = sent w @ [refresh_call (client w)]
                 \<and> client (snd (request e w m p q j)) = client w)
       \<and> (\<forall>w0. \<not> truthy (refresh_token (client w0))
             \<longrightarrow> refresh_access_token e w0 =
                   (Inl (AuthenticationError_init (PStr ''No refresh token available'') PNone PNone),
                    w0))"
proof -
  let ?w1 = "snd (should_refresh_token e w)"
  let ?orig = "\<lambda>c. \<lparr>call_method = m, call_url = p, call_params = q, call_json = j,
                     call_headers = get_headers c\<rparr>"
  have t: "truthy (refresh_token (client ?w1))"
    using assms by (simp add: should_refresh_token_truthy should_refresh_token_frame)
  have pf: "preflight e w = refresh_access_token e ?w1"
    using assms by (rule preflight_refresh)
  have s: "sent (snd (preflight e w)) = sent w @ [refresh_call (client w)]"
    using refresh_access_token_sent [OF t, of e] pf by (simp add: should_refresh_token_frame)
  have b: "\<forall>ex w2. refresh_access_token e ?w1 = (Inl ex, w2)
             \<longrightarrow> request e w m p q j = (Inl ex, w2)
                 \<and> sent w2 = sent w @ [refresh_call (client w)]"
    using pf s by (auto simp: request_preflight_failed)
  have e: "\<forall>w2. refresh_access_token e ?w1 = (Inr (), w2)
             \<longrightarrow> sent (snd (request e w m p q j))
                   = sent w @ [refresh_call (client w), ?orig (client w2)]
                 \<and> client (snd (request e w m p q j)) = client w2"
  proof (intro allI impI)
    fix w2 assume h: "refresh_access_token e ?w1 = (Inr (), w2)"
    then have p2: "preflight e w = (Inr (), w2)" using pf by simp
    have "sent w2 = sent w @ [refresh_call (client w)]" using s p2 by simp
    then show "sent (snd (request e w m p q j))
                   = sent w @ [refresh_call (client w), ?orig (client w2)]
                 \<and> client (snd (request e w m p q j)) = client w2"
      using request_after_preflight [OF p2, of m p q j] by simp
  qed
  have a: "\<exists>rest. sent (snd (request e w m p q j)) = sent w @ refresh_call (client w) # rest
             \<and> (rest = [] \<or> rest = [?orig (client (snd (request e w m p q j)))])"
  proof (cases "refresh_access_token e ?w1")
    case (Pair res w2)
    show ?thesis
    proof (cases res)
      case (Inl ex)
      with Pair b show ?thesis by simp
    next
      case (Inr u)
      with Pair e show ?thesis by simp
    qed
  qed
  have f: "\<forall>r kvs tok d.
             server e (length (sent w)) = Response r \<and> resp_status r = 200
             \<and> resp_json r = Some (PDict kvs) \<and> map_of kvs ''access_token'' = Some tok
             \<and> timedelta_seconds (dict_get kvs ''expires_in'' (PInt 3600)) = Inr d
             \<longrightarrow> client (snd (request e w m p q j))
                   = (client w)\<lparr>access_token := tok,
                                token_expires_at := Some (clock e (Suc (ticks w)) + d)\<rparr>
                 \<and> sent (snd (request e w m p q j))
                   = sent w @ [refresh_call (client w),
                               ?orig ((client w)\<lparr>access_token := tok,
                                       token_expires_at := Some (clock e (Suc (ticks w)) + d)\<rparr>)]"
  proof (intro allI impI)
    fix r kvs tok d
    assume h: "server e (length (sent w)) = Response r \<and> resp_status r = 200
             \<and> resp_json r = Some (PDict kvs) \<and> map_of kvs ''access_token'' = Some tok
             \<and> timedelta_seconds (dict_get kvs ''expires_in'' (PInt 3600)) = Inr d"
    have "refresh_access_token e ?w1 =
           (Inr (),
            \<lparr>client = (client ?w1)\<lparr>access_token := tok,
                                  token_expires_at := Some (clock e (ticks ?w1) + d)\<rparr>,
             ticks = Suc (ticks ?w1), sent = sent ?w1 @ [refresh_call (client ?w1)]\<rparr>)"
    proof (rule refresh_access_token_accepted)
      show "truthy (refresh_token (client ?w1))" by (rule t)
      show "server e (length (sent ?w1)) = Response r"
        using h by (simp add: should_refresh_token_frame)
      show "resp_status r = 200" using h by simp
      show "resp_json r = Some (PDict kvs)" using h by simp
      show "map_of kvs ''access_token'' = Some tok" using h by simp
      show "timedelta_seconds (dict_get kvs ''expires_in'' (PInt 3600)) = Inr d" using h by simp
    qed
    then show "client (snd (request e w m p q j))
                   = (client w)\<lparr>access_token := tok,
                                token_expires_at := Some (clock e (Suc (ticks w)) + d)\<rparr>
                 \<and> sent (snd (request e w m p q j))
                   = sent w @ [refresh_call (client w),
                               ?orig ((client w)\<lparr>access_token := tok,
                                       token_expires_at := Some (clock e (Suc (ticks w)) + d)\<rparr>)]"
      using e assms by (simp add: should_refresh_token_frame should_refresh_token_ticks)
  qed
  have c: "\<forall>r. server e (length (sent w)) = Response r \<and> resp_status r \<noteq> 200
             \<longrightarrow> fst (request e w m p q j) =
                   Inl (AuthenticationError_init (PStr ''Failed to refresh token'') PNone PNone)
                 \<and> kind_of (AuthenticationError_init (PStr ''Failed to refresh token'') PNone PNone)
                   = Some Authentication
                 \<and> sent (snd (request e w m p q j)) = sent w @ [refresh_call (client w)]
                 \<and> client (snd (request e w m p q j)) = client w"
  proof (intro allI impI)
    fix r assume h: "server e (length (sent w)) = Response r \<and> resp_status r \<noteq> 200"
    have "refresh_access_token e ?w1 =
           (Inl (AuthenticationError_init (PStr ''Failed to refresh token'') PNone PNone),
            ?w1\<lparr>sent := sent ?w1 @ [refresh_call (client ?w1)]\<rparr>)"
    proof (rule refresh_access_token_rejected)
      show "truthy (refresh_token (client ?w1))" by (rule t)
      show "server e (length (sent ?w1)) = Response r"
        using h by (simp add: should_refresh_token_frame)
      show "resp_status r \<noteq> 200" using h by simp
    qed
    then show "fst (request e w m p q j) =
                   Inl (AuthenticationError_init (PStr ''Failed to refresh token'') PNone PNone)
                 \<and> kind_of (AuthenticationError_init (PStr ''Failed to refresh token'') PNone PNone)
                   = Some Authentication
                 \<and> sent (snd (request e w m p q j)) = sent w @ [refresh_call (client w)]
                 \<and> client (snd (request e w m p q j)) = client w"
      using b by (simp add: AuthenticationError_init_def should_refresh_token_frame)
  qed
  have d: "\<forall>w0. \<not> truthy (refresh_token (client w0))
             \<longrightarrow> refresh_access_token e w0 =
                   (Inl (AuthenticationError_init (PStr ''No refresh token available'') PNone PNone),
                    w0)"
    by (simp add: refresh_access_token_def)
  show ?thesis using a b e f c d by blast
qed

theorem request_refresh_first_witness:
  "fst (should_refresh_token (example_env (Response (empty_reply 401))) (fresh_world example_client))
   \<and> fst (request (example_env (Response (empty_reply 401))) (fresh_world example_client)
            ''GET'' ''/api/v1/customers'' PNone PNone)
     = Inl (AuthenticationError
              \<lparr>message = PStr ''Failed to refresh token'', status_code = Some 401,
               error_code = PStr ''AUTHENTICATION_ERROR'', details = PDict []\<rparr>)
   \<and> sent (snd (request (example_env (Response (empty_reply 401))) (fresh_world example_client)
            ''GET'' ''/api/v1/customers'' PNone PNone))
     = [refresh_call example_client]
   \<and> fst (should_refresh_token (example_env (Response refresh_reply)) (fresh_world example_client))
   \<and> client (snd (request (example_env (Response refresh_reply)) (fresh_world example_client)
            ''GET'' ''/api/v1/customers'' PNone PNone))
     = example_client\<lparr>access_token := PStr ''token-2'', token_expires_at := Some (seconds 4600)\<rparr>
   \<and> sent (snd (request (example_env (Response refresh_reply)) (fresh_world example_client)
            ''GET'' ''/api/v1/customers'' PNone PNone))
     = [refresh_call example_client,
        \<lparr>call_method = ''GET'', call_url = ''/api/v1/customers'', call_params = PNone,
         call_json = PNone,
         call_headers = [(''Content-Type'', Plain ''application/json''),
                         (''Accept'', Plain ''application/json''),
                         (''Authorization'', Bearer (PStr ''token-2''))]\<rparr>]"
proof -
  have h: "fst (should_refresh_token (example_env (Response (empty_reply 401)))
                 (fresh_world example_client))"
    by (simp add: should_refresh_token_def datetime_now_def example_env_def fresh_world_def
          example_client_def seconds_def minutes_def)
  have s: "server (example_env (Response (empty_reply 401)))
             (length (sent (fresh_world example_client))) = Response (empty_reply 401)
           \<and> resp_status (empty_reply 401) \<noteq> 200"
    by (simp add: example_env_def empty_reply_def)
  have h2: "fst (should_refresh_token (example_env (Response refresh_reply))
                 (fresh_world example_client))"
    by (simp add: should_refresh_token_def datetime_now_def example_env_def fresh_world_def
          example_client_def seconds_def minutes_def)
  have s2: "server (example_env (Response refresh_reply))
             (length (sent (fresh_world example_client))) = Response refresh_reply
           \<and> resp_status refresh_reply = 200
           \<and> resp_json refresh_reply
               = Some (PDict [(''access_token'', PStr ''token-2''), (''expires_in'', PInt 3600)])
           \<and> map_of [(''access_token'', PStr ''token-2''), (''expires_in'', PInt 3600)]
                ''access_token'' = Some (PStr ''token-2'')
           \<and> timedelta_seconds
                (dict_get [(''access_token'', PStr ''token-2''), (''expires_in'', PInt 3600)]
                   ''expires_in'' (PInt 3600)) = Inr (seconds 3600)"
    by (simp add: example_env_def refresh_reply_def dict_get_def)
  have g: "get_headers (example_client\<lparr>access_token := PStr ''token-2'',
                                       token_expires_at := Some (seconds 4600)\<rparr>)
           = [(''Content-Type'', Plain ''application/json''),
              (''Accept'', Plain ''application/json''),
              (''Authorization'', Bearer (PStr ''token-2''))]"
    by (simp add: get_headers_def example_client_def)
  have k: "clock (example_env (Response refresh_reply)) (Suc (ticks (fresh_world example_client)))
             + seconds 3600 = seconds 4600"
    by (simp add: example_env_def seconds_def)
  show ?thesis
    using h s request_refresh_first [OF h, of "''GET''" "''/api/v1/customers''" PNone PNone]
          h2 s2 g k
          request_refresh_first [OF h2, of "''GET''" "''/api/v1/customers''" PNone PNone]
    by (simp add: AuthenticationError_init_def CRMError_init_def py_or_def fresh_world_def)
qed

text \<open>
  C5, as the code has it. A reply with status 404 whose body is empty or is not JSON
  makes the dispatch raise a \<open>NotFoundError\<close> (status 404, code \<open>NOT_FOUND\<close>, empty
  details) whatever the body holds, and the message of that error is the raw text of
  the reply, since the body the dispatch makes up is \<open>{"error": response.text}\<close> and
  \<open>raise_for_status\<close> passes its \<open>error\<close> entry as the message. The default message
  "Resource not found" is not used: for an empty body the message is the empty string.
\<close>

theorem request_not_found:
  assumes "preflight e w = (Inr u, w2)"
      and "server e (length (sent w2)) = Response r"
      and "resp_status r = 404" and "resp_json r = None"
  shows "fst (request e w m p q j) =
           Inl (NotFoundError
                  \<lparr>message = PStr (resp_text r), status_code = Some 404,
                   error_code = PStr ''NOT_FOUND'', details = PDict []\<rparr>)
         \<and> kind_of (NotFoundError
                  \<lparr>message = PStr (resp_text r), status_code = Some 404,
                   error_code = PStr ''NOT_FOUND'', details = PDict []\<rparr>) = Some NotFound"
proof -
  have "fst (request e w m p q j) =
          Inl (fst (raise_for_status 404 [(''error'', PStr (resp_text r))]))"
    using request_error_status [OF assms(1) assms(2) _ assms(4), of m p q j] assms(3) by simp
  then show ?thesis
    by (simp add: raise_for_status_def NotFoundError_init_def store_if_def py_or_def
          dict_get_def CRMError_init_def Let_def)
qed

theorem request_not_found_witness:
  "preflight (example_env (Response \<lparr>resp_status = 404, resp_text = ''<h1>Not Found</h1>'', resp_json = None\<rparr>))
     (fresh_world settled_client)
   = (Inr (), (fresh_world settled_client)\<lparr>ticks := 1\<rparr>)
   \<and> fst (request (example_env (Response \<lparr>resp_status = 404, resp_text = ''<h1>Not Found</h1>'', resp_json = None\<rparr>))
            (fresh_world settled_client) ''GET'' ''/api/v1/customers/42'' PNone PNone)
     = Inl (NotFoundError
              \<lparr>message = PStr ''<h1>Not Found</h1>'', status_code = Some 404,
               error_code = PStr ''NOT_FOUND'', details = PDict []\<rparr>)"
proof -
  let ?e = "example_env (Response \<lparr>resp_status = 404, resp_text = ''<h1>Not Found</h1>'', resp_json = None\<rparr>)"
  have h: "preflight ?e (fresh_world settled_client)
           = (Inr (), (fresh_world settled_client)\<lparr>ticks := 1\<rparr>)"
    by (simp add: preflight_def should_refresh_token_def datetime_now_def example_env_def
          fresh_world_def settled_client_def example_client_def seconds_def minutes_def)
  have s: "server ?e (length (sent ((fresh_world settled_client)\<lparr>ticks := 1\<rparr>)))
           = Response \<lparr>resp_status = 404, resp_text = ''<h1>Not Found</h1>'', resp_json = None\<rparr>"
    by (simp add: example_env_def)
  show ?thesis
    using h request_not_found [OF h s, of "''GET''" "''/api/v1/customers/42''" PNone PNone]
    by simp
qed

text \<open>
  C5 as stated is false: a 404 reply with an empty body makes the dispatch raise a
  \<open>NotFoundError\<close> whose message is the empty string, not "Resource not found".
\<close>

theorem request_not_found_counterexample:
  "fst (request (example_env (Response (empty_reply 404))) (fresh_world settled_client)
          ''GET'' ''/api/v1/customers/42'' PNone PNone)
   = Inl (NotFoundError
            \<lparr>message = PStr [], status_code = Some 404, error_code = PStr ''NOT_FOUND'',
             details = PDict []\<rparr>)
   \<and> PStr [] \<noteq> PStr ''Resource not found''"
  by (simp add: request_def preflight_def should_refresh_token_def datetime_now_def
        transport_send_def example_env_def fresh_world_def settled_client_def
        example_client_def empty_reply_def seconds_def minutes_def raise_for_status_def
        NotFoundError_init_def store_if_def py_or_def dict_get_def CRMError_init_def Let_def)

text \<open>
  C4. The mapping from status to kind is meant to be total and free of side effects,
  and the source misses both at the statuses 400 and 429, where the constructor stores
  an entry into the \<open>details\<close> it is passed. With the body
  \<open>{"details": "x", "retry_after": 30}\<close> status 429 raises \<open>TypeError\<close>, which is no
  error of the taxonomy, while status 401 on the same body, and status 429 on the body
  without \<open>retry_after\<close>, raise the error of the table; status 429 with the body
  \<open>{"retry_after": 30}\<close> raises the \<open>RateLimitError\<close> whose \<open>retry_after\<close> is 30. With
  the body \<open>{"details": {"a": 1}, "retry_after": 30}\<close> the store goes into the
  \<open>details\<close> dict of the body itself, which holds \<open>retry_after\<close> after the call.
\<close>

theorem raise_for_status_type_error:
  "fst (raise_for_status 429 [(''details'', PStr ''x''), (''retry_after'', PInt 30)]) = TypeError
   \<and> kind_of TypeError = None
   \<and> fst (raise_for_status 401 [(''details'', PStr ''x''), (''retry_after'', PInt 30)])
     = AuthenticationError
         \<lparr>message = PStr ''Unknown error'', status_code = Some 401,
          error_code = PStr ''AUTHENTICATION_ERROR'', details = PStr ''x''\<rparr>
   \<and> fst (raise_for_status 429 [(''details'', PStr ''x'')])
     = RateLimitError
         \<lparr>message = PStr ''Unknown error'', status_code = Some 429,
          error_code = PStr ''RATE_LIMIT_EXCEEDED'', details = PStr ''x''\<rparr> PNone
   \<and> fst (raise_for_status 429 [(''retry_after'', PInt 30)])
     = RateLimitError
         \<lparr>message = PStr ''Unknown error'', status_code = Some 429,
          error_code = PStr ''RATE_LIMIT_EXCEEDED'',
          details = PDict [(''retry_after'', PInt 30)]\<rparr> (PInt 30)
   \<and> snd (raise_for_status 429
            [(''details'', PDict [(''a'', PInt 1)]), (''retry_after'', PInt 30)])
     = [(''details'', PDict [(''a'', PInt 1), (''retry_after'', PInt 30)]),
        (''retry_after'', PInt 30)]"
  by (simp add: raise_for_status_def Let_def RateLimitError_init_def
        AuthenticationError_init_def store_if_def py_or_def dict_get_def CRMError_init_def)

text \<open>
  C7. After \<open>logout\<close>, however it ends, the access token, the refresh token and the
  expiry are \<open>None\<close>; when the logout call fails, with a transport error or an error
  status, \<open>logout\<close> raises that failure, and the three attributes are cleared all the
  same.
\<close>

theorem logout_clears:
  "access_token (client (snd (logout e w))) = PNone
   \<and> refresh_token (client (snd (logout e w))) = PNone
   \<and> token_expires_at (client (snd (logout e w))) = None
   \<and> (\<forall>ex w1. post e w ''/api/v1/auth/logout'' PNone = (Inl ex, w1)
         \<longrightarrow> fst (logout e w) = Inl ex)"
  by (cases "post e w ''/api/v1/auth/logout'' PNone") (simp add: logout_def)

theorem logout_clears_witness:
  "kind_of (case fst (logout (example_env (RequestError ''connection refused''))
                        (fresh_world settled_client)) of Inl ex \<Rightarrow> ex) = Some Network
   \<and> kind_of (case fst (logout (example_env (Response (empty_reply 500)))
                        (fresh_world settled_client)) of Inl ex \<Rightarrow> ex) = Some Server
   \<and> client (snd (logout (example_env (RequestError ''connection refused''))
                        (fresh_world settled_client)))
     = settled_client\<lparr>access_token := PNone, refresh_token := PNone, token_expires_at := None\<rparr>"
proof -
  let ?e = "example_env (RequestError ''connection refused'')"
  let ?e5 = "example_env (Response (empty_reply 500))"
  let ?w = "fresh_world settled_client"
  have p: "post ?e ?w ''/api/v1/auth/logout'' PNone =
             (Inl (NetworkError
                    \<lparr>message = PStr ''Network error: connection refused'', status_code = None,
                     error_code = PStr ''NETWORK_ERROR'',
                     details = PDict [(''original_error'', PStr ''connection refused'')]\<rparr>
                    (Some ''connection refused'')),
              \<lparr>client = settled_client, ticks = 1,
               sent = [\<lparr>call_method = ''POST'', call_url = ''/api/v1/auth/logout'',
                        call_params = PNone, call_json = PNone,
                        call_headers = get_headers settled_client\<rparr>]\<rparr>)"
    by (simp add: post_def response_json_def request_def preflight_def should_refresh_token_def
          datetime_now_def transport_send_def example_env_def fresh_world_def
          settled_client_def example_client_def seconds_def minutes_def
          NetworkError_init_def py_or_def CRMError_init_def)
  have p5: "\<exists>b w1. post ?e5 ?w ''/api/v1/auth/logout'' PNone = (Inl (ServerError b), w1)"
    by (simp add: post_def response_json_def request_def preflight_def should_refresh_token_def
          datetime_now_def transport_send_def example_env_def fresh_world_def
          settled_client_def example_client_def seconds_def minutes_def empty_reply_def
          raise_for_status_def ServerError_init_def py_or_def CRMError_init_def dict_get_def
          Let_def)
  have c: "client (snd (logout ?e ?w))
     = settled_client\<lparr>access_token := PNone, refresh_token := PNone, token_expires_at := None\<rparr>"
    using p by (simp add: logout_def)
  show ?thesis
    using p p5 c logout_clears [of ?e ?w] logout_clears [of ?e5 ?w]
    by auto
qed

text \<open>
  C9. The headers of a request always hold \<open>Content-Type\<close> and \<open>Accept\<close> with the value
  \<open>application/json\<close>. They hold \<open>X-API-Key\<close> exactly when an API key is configured, and
  otherwise \<open>Authorization\<close> with the bearer token exactly when an access token is
  present, so never both and neither when both are missing; and \<open>X-Tenant-ID\<close> exactly
  when a tenant id is set. Configured, present and set are read as the source tests
  them: the value is true for Python, that is neither \<open>None\<close> nor empty. There is no
  other header. \<open>_get_headers\<close> reads the client and assigns nothing, which is why its
  model returns the headers alone.
\<close>

theorem get_headers_spec:
  "map_of (get_headers c) ''Content-Type'' = Some (Plain ''application/json'')
   \<and> map_of (get_headers c) ''Accept'' = Some (Plain ''application/json'')
   \<and> map_of (get_headers c) ''X-API-Key''
       = (if truthy (of_opt (api_key c)) then map_option Plain (api_key c) else None)
   \<and> map_of (get_headers c) ''Authorization''
       = (if truthy (of_opt (api_key c)) then None
          else if truthy (access_token c) then Some (Bearer (access_token c)) else None)
   \<and> map_of (get_headers c) ''X-Tenant-ID''
       = (if truthy (of_opt (tenant_id c)) then map_option Plain (tenant_id c) else None)
   \<and> (map_of (get_headers c) ''X-API-Key'' = None \<or> map_of (get_headers c) ''Authorization'' = None)
   \<and> distinct (map fst (get_headers c))
   \<and> set (map fst (get_headers c))
       \<subseteq> {''Content-Type'', ''Accept'', ''X-API-Key'', ''Authorization'', ''X-Tenant-ID''}"
  by (cases "api_key c"; cases "tenant_id c") (simp_all add: get_headers_def Let_def)

theorem get_headers_spec_witness:
  "get_headers (example_client\<lparr>api_key := Some ''key-1'', tenant_id := Some ''tenant-1''\<rparr>)
   = [(''Content-Type'', Plain ''application/json''), (''Accept'', Plain ''application/json''),
      (''X-API-Key'', Plain ''key-1''), (''X-Tenant-ID'', Plain ''tenant-1'')]
   \<and> map_of (get_headers (example_client\<lparr>api_key := Some ''key-1'', tenant_id := Some ''tenant-1''\<rparr>))
        ''Authorization'' = None
   \<and> map_of (get_headers example_client) ''Authorization'' = Some (Bearer (PStr ''token-1''))
   \<and> map_of (get_headers example_client) ''X-API-Key'' = None"
  using get_headers_spec [of "example_client\<lparr>api_key := Some ''key-1'', tenant_id := Some ''tenant-1''\<rparr>"]
        get_headers_spec [of example_client]
  by (simp add: get_headers_def example_client_def)

text \<open>
  C6. The result a \<open>list\<close> call constructs has the page and the per_page that were
  requested, whatever the reply holds; its total and total_pages are those of the reply
  as pydantic validates them (an \<open>int\<close> of the reply is taken as it is), with
  total_pages 1 when the reply has none; \<open>has_next\<close> is \<open>page < total_pages\<close> and
  \<open>has_prev\<close> is \<open>page > 1\<close>. In particular page 2 with per_page 10 against a reply
  with a total of 18 and 2 pages gives page 2, per_page 10, total 18, total_pages 2,
  no next page and a previous page.
\<close>

theorem CustomerService_list_page:
  "(CustomerService_list lax Customer e w pg per status search = (Inr r, w') \<longrightarrow>
      page r = pg \<and> per_page r = per
      \<and> has_next r = (pg < total_pages r) \<and> has_prev r = (pg > 1)
      \<and> (\<exists>reply. get e w ''/api/v1/customers'' (list_params pg per status search)
                    = (Inr (PDict reply), w')
            \<and> pydantic_int lax (dict_get reply ''total'' (PInt 0)) = Inr (total r)
            \<and> pydantic_int lax (dict_get reply ''total_pages'' (PInt 1)) = Inr (total_pages r)
            \<and> (\<forall>t. map_of reply ''total'' = Some (PInt t) \<longrightarrow> total r = t)
            \<and> (\<forall>tp. map_of reply ''total_pages'' = Some (PInt tp) \<longrightarrow> total_pages r = tp)
            \<and> (map_of reply ''total_pages'' = None \<longrightarrow> total_pages r = 1)))
   \<and> (construct_all Customer cs = Inr items \<longrightarrow>
        paginate lax Customer
          (PDict [(''data'', PList cs), (''total'', PInt 18), (''total_pages'', PInt 2)]) 2 10
        = Inr \<lparr>data = items, total = 18, page = 2, per_page = 10, total_pages = 2\<rparr>
        \<and> \<not> has_next \<lparr>data = items, total = 18, page = 2, per_page = 10, total_pages = 2\<rparr>
        \<and> has_prev \<lparr>data = items, total = 18, page = 2, per_page = 10, total_pages = 2\<rparr>)"
proof (intro conjI impI)
  assume l: "CustomerService_list lax Customer e w pg per status search = (Inr r, w')"
  obtain res w1 where g: "get e w ''/api/v1/customers'' (list_params pg per status search) = (res, w1)"
    by (cases "get e w ''/api/v1/customers'' (list_params pg per status search)")
  from l g obtain reply where r: "res = Inr reply" and w: "w1 = w'"
    and p: "paginate lax Customer reply pg per = Inr r"
    by (cases res) (auto simp: CustomerService_list_def)
  from paginate_fields [OF p] obtain kvs where
    f: "page r = pg" "per_page r = per" "reply = PDict kvs"
       "pydantic_int lax (dict_get kvs ''total'' (PInt 0)) = Inr (total r)"
       "pydantic_int lax (dict_get kvs ''total_pages'' (PInt 1)) = Inr (total_pages r)"
    by blast
  show "page r = pg" "per_page r = per" by (rule f)+
  show "has_next r = (pg < total_pages r)" "has_prev r = (pg > 1)"
    using f by (simp_all add: has_next_def has_prev_def)
  have t: "\<forall>t. map_of kvs ''total'' = Some (PInt t) \<longrightarrow> total r = t"
    using f(4) by (auto simp: dict_get_def pydantic_int_PInt)
  have tp: "\<forall>tp. map_of kvs ''total_pages'' = Some (PInt tp) \<longrightarrow> total_pages r = tp"
    using f(5) by (auto simp: dict_get_def pydantic_int_PInt)
  have d: "map_of kvs ''total_pages'' = None \<longrightarrow> total_pages r = 1"
    using f(5) by (auto simp: dict_get_def pydantic_int_PInt)
  show "\<exists>reply. get e w ''/api/v1/customers'' (list_params pg per status search)
                    = (Inr (PDict reply), w')
            \<and> pydantic_int lax (dict_get reply ''total'' (PInt 0)) = Inr (total r)
            \<and> pydantic_int lax (dict_get reply ''total_pages'' (PInt 1)) = Inr (total_pages r)
            \<and> (\<forall>t. map_of reply ''total'' = Some (PInt t) \<longrightarrow> total r = t)
            \<and> (\<forall>tp. map_of reply ''total_pages'' = Some (PInt tp) \<longrightarrow> total_pages r = tp)
            \<and> (map_of reply ''total_pages'' = None \<longrightarrow> total_pages r = 1)"
    using g r w f(3,4,5) t tp d by (intro exI[of _ kvs]) simp
next
  assume c: "construct_all Customer cs = Inr items"
  show "paginate lax Customer
          (PDict [(''data'', PList cs), (''total'', PInt 18), (''total_pages'', PInt 2)]) 2 10
        = Inr \<lparr>data = items, total = 18, page = 2, per_page = 10, total_pages = 2\<rparr>"
    using c by (rule paginate_example)
qed (simp_all add: has_next_def has_prev_def)

theorem CustomerService_list_page_witness:
  "fst (CustomerService_list (\<lambda>_. None) Some (example_env (Response page_reply))
          (fresh_world settled_client) 2 10 None None)
   = Inr \<lparr>data = map (\<lambda>i. [(''id'', PInt i)]) [1, 2, 3, 4, 5, 6, 7, 8],
          total = 18, page = 2, per_page = 10, total_pages = 2\<rparr>
   \<and> \<not> has_next \<lparr>data = map (\<lambda>i. [(''id'', PInt i)]) [1, 2, 3, 4, 5, 6, 7, 8],
          total = 18, page = 2, per_page = 10, total_pages = (2::int)\<rparr>
   \<and> has_prev \<lparr>data = map (\<lambda>i. [(''id'', PInt i)]) [1, 2, 3, 4, 5, 6, 7, 8],
          total = 18, page = 2, per_page = 10, total_pages = (2::int)\<rparr>
   \<and> length (map (\<lambda>i. [(''id'', PInt i)]) [1, 2, 3, 4, 5, 6, 7, 8]) = 8"
proof -
  let ?e = "example_env (Response page_reply)"
  let ?w = "fresh_world settled_client"
  let ?items = "map (\<lambda>i. [(''id'', PInt i)]) [1, 2, 3, 4, 5, 6, 7, 8]"
  let ?r = "\<lparr>data = ?items, total = 18, page = 2, per_page = 10, total_pages = (2::int)\<rparr>"
  have g: "\<exists>w'. get ?e ?w ''/api/v1/customers'' (list_params 2 10 None None)
           = (Inr (PDict [(''data'', PList (map (\<lambda>i. PDict [(''id'', PInt i)]) [1, 2, 3, 4, 5, 6, 7, 8])),
                          (''total'', PInt 18), (''total_pages'', PInt 2)]), w')"
    by (simp add: get_def response_json_def request_def preflight_def should_refresh_token_def
          datetime_now_def transport_send_def example_env_def fresh_world_def
          settled_client_def example_client_def seconds_def minutes_def page_reply_def)
  have c: "construct_all Some (map (\<lambda>i. PDict [(''id'', PInt i)]) [1, 2, 3, 4, 5, 6, 7, 8])
           = Inr ?items"
    by simp
  from g obtain w' where g': "get ?e ?w ''/api/v1/customers'' (list_params 2 10 None None)
           = (Inr (PDict [(''data'', PList (map (\<lambda>i. PDict [(''id'', PInt i)]) [1, 2, 3, 4, 5, 6, 7, 8])),
                          (''total'', PInt 18), (''total_pages'', PInt 2)]), w')" ..
  have l: "CustomerService_list (\<lambda>_. None) Some ?e ?w 2 10 None None = (Inr ?r, w')"
    using g' CustomerService_list_page
            [of "\<lambda>_. None" Some ?e ?w 2 10 None None ?r w'
                "map (\<lambda>i. PDict [(''id'', PInt i)]) [1, 2, 3, 4, 5, 6, 7, 8]" ?items] c
    by (simp add: CustomerService_list_def)
  show ?thesis
    using l CustomerService_list_page
            [of "\<lambda>_. None" Some ?e ?w 2 10 None None ?r w'
                "map (\<lambda>i. PDict [(''id'', PInt i)]) [1, 2, 3, 4, 5, 6, 7, 8]" ?items] c
    by (simp add: has_next_def has_prev_def)
qed

text \<open>
  C8, as the code has it. After a successful login whose \<open>expires_in\<close> (3600 when the
  reply has none) amounts to more than 300 seconds, a dispatch that reads the clock at
  the instant the login read it finds no refresh due, and sends the request alone.
\<close>

theorem login_then_dispatch:
  assumes "login LoginResponse e w email password tid = (Inr r, w')"
      and "post e w ''/api/v1/auth/login'' (login_json email password tid (client w))
           = (Inr reply, w1)"
      and "py_get reply ''expires_in'' (PInt 3600) = Inr v"
      and "timedelta_seconds v = Inr d" and "d > seconds 300"
      and "clock e (ticks w') = clock e (ticks w1)"
  shows "\<not> fst (should_refresh_token e w')
       \<and> sent (snd (request e w' m p q j))
         = sent w' @ [\<lparr>call_method = m, call_url = p, call_params = q, call_json = j,
                       call_headers = get_headers (client w')\<rparr>]"
proof -
  from login_success [OF assms(1)] assms(2)
  have st: "store_tokens LoginResponse e reply w1 = (Inr r, w')" by auto
  from store_tokens_success [OF st] assms(3,4)
  have "token_expires_at (client w') = Some (clock e (ticks w1) + d)" by auto
  then have x: "token_expires_at (client w') = Some (clock e (ticks w') + d)"
    using assms(6) by simp
  have n: "\<not> fst (should_refresh_token e w')"
    using x assms(5)
    by (auto simp: should_refresh_token_def datetime_now_def minutes_def seconds_def)
  obtain w2 where pf: "preflight e w' = (Inr (), w2)" and c2: "client w2 = client w'"
    and s2: "sent w2 = sent w'"
    using n should_refresh_token_frame [of e w']
    by (cases "should_refresh_token e w'") (auto simp: preflight_def)
  have "sent (snd (request e w' m p q j))
         = sent w' @ [\<lparr>call_method = m, call_url = p, call_params = q, call_json = j,
                       call_headers = get_headers (client w')\<rparr>]"
    using pf c2 s2
    by (auto simp: request_def transport_send_def
             split: transport_result.splits pyval.splits option.splits)
  with n show ?thesis by simp
qed

theorem login_then_dispatch_witness:
  "fst (login Some (example_env (Response hour_login_reply)) (fresh_world new_client)
          ''user@example.com'' ''secret'' None) = Inr (login_fields 3600)
   \<and> \<not> fst (should_refresh_token (example_env (Response hour_login_reply))
            (snd (login Some (example_env (Response hour_login_reply)) (fresh_world new_client)
                    ''user@example.com'' ''secret'' None)))
   \<and> map call_url
        (sent (snd (request (example_env (Response hour_login_reply))
            (snd (login Some (example_env (Response hour_login_reply)) (fresh_world new_client)
                    ''user@example.com'' ''secret'' None))
            ''GET'' ''/api/v1/customers'' PNone PNone)))
     = [''/api/v1/auth/login'', ''/api/v1/customers'']"
proof -
  let ?e = "example_env (Response hour_login_reply)"
  let ?w1 = "\<lparr>client = new_client, ticks = 0,
               sent = [\<lparr>call_method = ''POST'', call_url = ''/api/v1/auth/login'',
                        call_params = PNone,
                        call_json = login_json ''user@example.com'' ''secret'' None new_client,
                        call_headers = get_headers new_client\<rparr>]\<rparr>"
  let ?w' = "\<lparr>client = new_client\<lparr>access_token := PStr ''token-2'',
                                   refresh_token := PStr ''refresh-2'',
                                   token_expires_at := Some (seconds 4600)\<rparr>,
               ticks = 1,
               sent = [\<lparr>call_method = ''POST'', call_url = ''/api/v1/auth/login'',
                        call_params = PNone,
                        call_json = login_json ''user@example.com'' ''secret'' None new_client,
                        call_headers = get_headers new_client\<rparr>]\<rparr>"
  have p: "post ?e (fresh_world new_client) ''/api/v1/auth/login''
             (login_json ''user@example.com'' ''secret'' None (client (fresh_world new_client)))
           = (Inr (PDict (login_fields 3600)), ?w1)"
    by (simp add: eval_defs hour_login_reply_def)
  have l: "login Some ?e (fresh_world new_client) ''user@example.com'' ''secret'' None
           = (Inr (login_fields 3600), ?w')"
    by (simp add: eval_defs hour_login_reply_def)
  have g: "py_get (PDict (login_fields 3600)) ''expires_in'' (PInt 3600) = Inr (PInt 3600)"
    by (simp add: login_fields_def dict_get_def)
  have t: "timedelta_seconds (PInt 3600) = Inr (seconds 3600)" by simp
  have d: "seconds 3600 > seconds 300" by (simp add: seconds_def)
  have c: "clock ?e (ticks ?w') = clock ?e (ticks ?w1)" by (simp add: example_env_def)
  show ?thesis
    using login_then_dispatch [OF l p g t d c, of "''GET''" "''/api/v1/customers''" PNone PNone]
    unfolding l by simp
qed

text \<open>
  C8 as stated is false: a login that grants the token for 60 seconds stores an expiry
  inside the five minutes margin, so the dispatch that follows at the same instant
  refreshes the token before it sends the request.
\<close>

theorem login_then_dispatch_counterexample:
  "fst (login Some (example_env (Response short_login_reply)) (fresh_world new_client)
          ''user@example.com'' ''secret'' None) = Inr (login_fields 60)
   \<and> fst (should_refresh_token (example_env (Response short_login_reply))
            (snd (login Some (example_env (Response short_login_reply)) (fresh_world new_client)
                    ''user@example.com'' ''secret'' None)))
   \<and> map call_url
        (sent (snd (request (example_env (Response short_login_reply))
            (snd (login Some (example_env (Response short_login_reply)) (fresh_world new_client)
                    ''user@example.com'' ''secret'' None))
            ''GET'' ''/api/v1/customers'' PNone PNone)))
     = [''/api/v1/auth/login'', ''/api/v1/auth/refresh'', ''/api/v1/customers'']"
proof -
  let ?e = "example_env (Response short_login_reply)"
  have l: "login Some ?e (fresh_world new_client) ''user@example.com'' ''secret'' None
           = (Inr (login_fields 60),
              \<lparr>client = new_client\<lparr>access_token := PStr ''token-2'',
                                   refresh_token := PStr ''refresh-2'',
                                   token_expires_at := Some (seconds 1060)\<rparr>,
               ticks = 1,
               sent = [\<lparr>call_method = ''POST'', call_url = ''/api/v1/auth/login'',
                        call_params = PNone,
                        call_json = login_json ''user@example.com'' ''secret'' None new_client,
                        call_headers = get_headers new_client\<rparr>]\<rparr>)"
    by (simp add: eval_defs short_login_reply_def)
  show ?thesis
    unfolding l
    by (simp add: eval_defs short_login_reply_def)
qed

end
